theory Spec2Isabelle
  imports Main "HOL-Library.Word"
begin

section \<open>Outcomes of running Go code\<close>

text \<open>
  A Go call either returns, panics at run time (an index or slice bound out of range, a
  call through a nil function value, a nil dereference, a negative repeat count) or runs
  forever. The loops of the decoder that have no bound of their own are given fuel;
  \<open>OutOfFuel\<close> is what such a loop answers when the fuel is used up, so a loop that
  really never returns answers \<open>OutOfFuel\<close> for every amount of fuel.
\<close>

datatype 'a result = Ok 'a | Panic | OutOfFuel

fun andThen :: "'a result \<Rightarrow> ('a \<Rightarrow> 'b result) \<Rightarrow> 'b result" where
  "andThen (Ok x) f = f x"
| "andThen Panic f = Panic"
| "andThen OutOfFuel f = OutOfFuel"

section \<open>The scanner (scanner.go)\<close>

text \<open>Bytes are \<open>char\<close>s (8 bits each); a byte slice and a Go string are both \<open>string\<close>.\<close>

abbreviation nl :: char where "nl \<equiv> CHR 0x0A"
abbreviation tab :: char where "tab \<equiv> CHR 0x09"
abbreviation cr :: char where "cr \<equiv> CHR 0x0D"
abbreviation backslash :: char where "backslash \<equiv> CHR 0x5C"
abbreviation dquote :: char where "dquote \<equiv> CHR 0x22"
abbreviation squote :: char where "squote \<equiv> CHR 0x27"

text \<open>The opcodes returned by the state functions and by \<open>eof\<close>, in the order of the source.\<close>

datatype opcode =
    scanContinue | scanSkipSpace | scanBeginTag | scanEndTag | scanBeginArray
  | scanBeginText | scanBeginDictionary | scanEndBlock | scanEndArray | scanArrayValue
  | scanDictionaryKey | scanDictionaryValue | scanTextLine | scanEnd | scanError

text \<open>The values stored in the parse stack.\<close>

datatype pstate = parseArrayValue | parseDictionaryKey | parseDictionaryValue | parseTextValue

text \<open>The kinds of block.\<close>

datatype blockType = dictionaryBlock | textBlock | arrayBlock

text \<open>
  The field \<open>step\<close> of the scanner holds a function value. It is modelled by the name of
  the function it holds; \<open>StateNil\<close> is the nil function value of a scanner that has not
  been reset. (\<open>stateBeginValueOrEmpty\<close> of the source is never stored in \<open>step\<close> nor
  called, and is left out.)
\<close>

datatype stepfn =
    StateNil | StateBeginBlockLine | StateReadingTag | StateWaitingForOpenBlock
  | StateOpenBlock | StateEndValue | StateNewDictionaryPair | StateNewArrayValue
  | StateNewTextLine | StateInText | StateInKey | StateBeginDictionaryValue | StateInValue
  | StateInStringEsc | StateInStringEscU | StateInStringEscU1 | StateInStringEscU12
  | StateInStringEscU123 | StateError

text \<open>
  The message of a syntax error. \<open>InvalidCharacter c context\<close> stands for the Go string
  \<^verbatim>\<open>"invalid character " + quoteChar(c) + " " + context\<close> (the quoting of \<open>c\<close> is done by
  \<^verbatim>\<open>strconv.Quote\<close> of the standard library); \<open>Message m\<close> is the literal string \<open>m\<close>.
\<close>

datatype message = InvalidCharacter char string | Message string

record SyntaxError =
  msg :: message
  Offset :: "64 word"

record scanner =
  step :: stepfn
  endBlock :: bool
  parseState :: "pstate list"
  err :: "SyntaxError option"
  bytes :: "64 word"
  tagName :: string

definition tags :: "string list" where
  "tags = [''meta'', ''vars:secret'', ''body'', ''tests'', ''get'', ''post'', ''put'', ''delete'',
    ''options'', ''trace'', ''connect'', ''head'', ''query'', ''headers'', ''body:text'', ''body:xml'',
    ''body:form-urlencoded'', ''body:multipart-form'', ''body:graphql'', ''body:graphql:vars'',
    ''script:pre-request'',
    ''script:post-response'', ''body:test'', ''body:json'', ''assert'', ''vars'']"

definition blockTypes :: "blockType list" where
  "blockTypes = [dictionaryBlock, arrayBlock, textBlock, textBlock, dictionaryBlock,
    dictionaryBlock, dictionaryBlock, dictionaryBlock,
    dictionaryBlock, dictionaryBlock, dictionaryBlock, dictionaryBlock, dictionaryBlock,
    dictionaryBlock, textBlock, textBlock,
    dictionaryBlock, dictionaryBlock, textBlock, textBlock, textBlock,
    textBlock, textBlock, textBlock, dictionaryBlock, dictionaryBlock]"

definition maxNestingDepth :: nat where
  "maxNestingDepth = 1"

definition reset :: "scanner \<Rightarrow> scanner" where
  "reset s = s\<lparr>step := StateBeginBlockLine, parseState := [], err := None,
               endBlock := False, tagName := []\<rparr>"

definition error :: "scanner \<Rightarrow> char \<Rightarrow> string \<Rightarrow> opcode \<times> scanner" where
  "error s c context =
     (scanError, s\<lparr>step := StateError,
                   err := Some \<lparr>msg = InvalidCharacter c context, Offset = bytes s\<rparr>\<rparr>)"

definition pushParseState :: "scanner \<Rightarrow> char \<Rightarrow> pstate \<Rightarrow> opcode \<Rightarrow> opcode \<times> scanner" where
  "pushParseState s c newParseState successState =
     (let s1 = s\<lparr>parseState := parseState s @ [newParseState]\<rparr>
      in if length (parseState s1) \<le> maxNestingDepth then (successState, s1)
         else error s1 c ''exceeded max depth'')"

text \<open>Slicing an empty stack to length \<open>-1\<close> panics.\<close>

definition popParseState :: "scanner \<Rightarrow> scanner result" where
  "popParseState s =
     (if parseState s = [] then Panic
      else Ok (s\<lparr>parseState := butlast (parseState s), endBlock := True,
                 step := StateBeginBlockLine\<rparr>))"

definition isSpace :: "char \<Rightarrow> bool" where
  "isSpace c = ((of_char c :: nat) \<le> 32 \<and> (c = CHR '' '' \<or> c = tab \<or> c = cr \<or> c = nl))"

fun checkTag_from :: "scanner \<Rightarrow> char \<Rightarrow> string \<Rightarrow> nat \<Rightarrow> string list \<Rightarrow> (opcode \<times> scanner) result" where
  "checkTag_from s c name i [] = Ok (error s c (''invalid tag name: '' @ name))"
| "checkTag_from s c name i (tag # rest) =
     (if name = tag then
        (let s1 = s\<lparr>step := StateWaitingForOpenBlock\<rparr>
         in if i < length blockTypes then
              (case blockTypes ! i of
                 dictionaryBlock \<Rightarrow> Ok (pushParseState s1 c parseDictionaryKey scanEndTag)
               | arrayBlock \<Rightarrow> Ok (pushParseState s1 c parseArrayValue scanEndTag)
               | textBlock \<Rightarrow> Ok (pushParseState s1 c parseTextValue scanEndTag))
            else Panic)
      else checkTag_from s c name (Suc i) rest)"

definition checkTag :: "scanner \<Rightarrow> char \<Rightarrow> (opcode \<times> scanner) result" where
  "checkTag s c = checkTag_from (s\<lparr>tagName := []\<rparr>) c (tagName s) 0 tags"

definition stateReadingTag :: "scanner \<Rightarrow> char \<Rightarrow> (opcode \<times> scanner) result" where
  "stateReadingTag s c =
     (if isSpace c then checkTag s c
      else Ok (scanContinue, s\<lparr>tagName := tagName s @ [c]\<rparr>))"

definition stateWaitingForOpenBlock :: "scanner \<Rightarrow> char \<Rightarrow> (opcode \<times> scanner) result" where
  "stateWaitingForOpenBlock s c =
     (if isSpace c then Ok (scanSkipSpace, s)
      else if parseState s = [] then Panic
      else (case last (parseState s) of
              parseDictionaryKey \<Rightarrow>
                if c = CHR ''{'' then Ok (scanBeginDictionary, s\<lparr>step := StateOpenBlock\<rparr>)
                else Ok (error s c ''unexpected char after block name'')
            | parseTextValue \<Rightarrow>
                if c = CHR ''{'' then Ok (scanBeginText, s\<lparr>step := StateOpenBlock\<rparr>)
                else Ok (error s c ''unexpected char after block name'')
            | parseArrayValue \<Rightarrow>
                if c = CHR ''['' then Ok (scanBeginArray, s\<lparr>step := StateOpenBlock\<rparr>)
                else Ok (error s c ''unexpected char after block name'')
            | parseDictionaryValue \<Rightarrow> Ok (error s c ''unexpected char after block name'')))"

definition stateBeginBlockLine :: "scanner \<Rightarrow> char \<Rightarrow> (opcode \<times> scanner) result" where
  "stateBeginBlockLine s c =
     (if isSpace c then Ok (scanSkipSpace, s)
      else if 96 < (of_char c :: nat) \<and> (of_char c :: nat) < 123 then
        Ok (scanBeginTag, s\<lparr>tagName := [c], endBlock := False, step := StateReadingTag\<rparr>)
      else Ok (scanEnd, s))"

text \<open>
  \<open>stateEndValue\<close> stores into the top of the stack with \<open>s.parseState[n-1] = ...\<close>; the
  stack is not empty there, since reading \<open>s.parseState[n-1]\<close> has just succeeded.
\<close>

definition stateEndValue :: "scanner \<Rightarrow> char \<Rightarrow> (opcode \<times> scanner) result" where
  "stateEndValue s c =
     (if parseState s = [] then Panic
      else (case last (parseState s) of
              parseTextValue \<Rightarrow>
                if c = nl then Ok (scanTextLine, s\<lparr>step := StateNewTextLine\<rparr>)
                else if c = CHR ''}'' then
                  andThen (popParseState s) (\<lambda>s1. Ok (scanEndBlock, s1))
                else Ok (error s c ''after text line'')
            | parseDictionaryKey \<Rightarrow>
                if isSpace c then Ok (scanSkipSpace, s\<lparr>step := StateEndValue\<rparr>)
                else if c = CHR '':'' then
                  Ok (scanDictionaryValue,
                      s\<lparr>parseState := (parseState s)[length (parseState s) - 1 := parseDictionaryValue],
                        step := StateBeginDictionaryValue\<rparr>)
                else Ok (error s c ''after dictionary key '')
            | parseDictionaryValue \<Rightarrow>
                if c = CHR '','' \<or> c = nl then
                  Ok (scanDictionaryKey,
                      s\<lparr>parseState := (parseState s)[length (parseState s) - 1 := parseDictionaryKey],
                        step := StateNewDictionaryPair\<rparr>)
                else if c = CHR ''}'' then
                  andThen (popParseState s) (\<lambda>s1. Ok (scanEndBlock, s1))
                else Ok (error s c ''after dictionary key:value pair'')
            | parseArrayValue \<Rightarrow>
                if isSpace c then Ok (scanSkipSpace, s\<lparr>step := StateEndValue\<rparr>)
                else if c = CHR '','' then Ok (scanArrayValue, s\<lparr>step := StateNewArrayValue\<rparr>)
                else if c = CHR '']'' then
                  andThen (popParseState s) (\<lambda>s1. Ok (scanEndArray, s1))
                else Ok (error s c ''after array element'')))"

definition stateInStringEsc :: "scanner \<Rightarrow> char \<Rightarrow> (opcode \<times> scanner) result" where
  "stateInStringEsc s c =
     (if c = CHR ''b'' \<or> c = CHR ''f'' \<or> c = CHR ''n'' \<or> c = CHR ''r'' \<or> c = CHR ''t''
         \<or> c = backslash \<or> c = CHR ''/'' \<or> c = dquote
      then Ok (scanContinue, s\<lparr>step := StateInValue\<rparr>)
      else if c = CHR ''u'' then Ok (scanContinue, s\<lparr>step := StateInStringEscU\<rparr>)
      else Ok (error s c ''in string escape code''))"

definition hexEscapeContext :: string where
  "hexEscapeContext = ''in '' @ [backslash] @ ''u hexadecimal character escape''"

definition isHex :: "char \<Rightarrow> bool" where
  "isHex c = (let n = (of_char c :: nat)
              in 48 \<le> n \<and> n \<le> 57 \<or> 97 \<le> n \<and> n \<le> 102 \<or> 65 \<le> n \<and> n \<le> 70)"

definition stateInStringEscU :: "scanner \<Rightarrow> char \<Rightarrow> (opcode \<times> scanner) result" where
  "stateInStringEscU s c =
     (if isHex c then Ok (scanContinue, s\<lparr>step := StateInStringEscU1\<rparr>)
      else Ok (error s c hexEscapeContext))"

definition stateInStringEscU1 :: "scanner \<Rightarrow> char \<Rightarrow> (opcode \<times> scanner) result" where
  "stateInStringEscU1 s c =
     (if isHex c then Ok (scanContinue, s\<lparr>step := StateInStringEscU12\<rparr>)
      else Ok (error s c hexEscapeContext))"

definition stateInStringEscU12 :: "scanner \<Rightarrow> char \<Rightarrow> (opcode \<times> scanner) result" where
  "stateInStringEscU12 s c =
     (if isHex c then Ok (scanContinue, s\<lparr>step := StateInStringEscU123\<rparr>)
      else Ok (error s c hexEscapeContext))"

definition stateInStringEscU123 :: "scanner \<Rightarrow> char \<Rightarrow> (opcode \<times> scanner) result" where
  "stateInStringEscU123 s c =
     (if isHex c then Ok (scanContinue, s\<lparr>step := StateInValue\<rparr>)
      else Ok (error s c hexEscapeContext))"

definition stateInText :: "scanner \<Rightarrow> char \<Rightarrow> (opcode \<times> scanner) result" where
  "stateInText s c = (if c = nl then stateEndValue s c else Ok (scanContinue, s))"

definition stateInKey :: "scanner \<Rightarrow> char \<Rightarrow> (opcode \<times> scanner) result" where
  "stateInKey s c =
     (if c = CHR '':'' then stateEndValue s c
      else if c = backslash then Ok (scanContinue, s\<lparr>step := StateInStringEsc\<rparr>)
      else if (of_char c :: nat) < 32 then Ok (error s c ''in key'')
      else Ok (scanContinue, s))"

definition stateInValue :: "scanner \<Rightarrow> char \<Rightarrow> (opcode \<times> scanner) result" where
  "stateInValue s c =
     (if c = backslash then Ok (scanContinue, s\<lparr>step := StateInStringEsc\<rparr>)
      else if c = nl then stateEndValue s c
      else if (of_char c :: nat) < 32 then Ok (error s c ''in value literal'')
      else Ok (scanContinue, s))"

definition stateBeginDictionaryValue :: "scanner \<Rightarrow> char \<Rightarrow> (opcode \<times> scanner) result" where
  "stateBeginDictionaryValue s c =
     (if c = nl then stateEndValue s c
      else if isSpace c then Ok (scanSkipSpace, s)
      else stateInValue (s\<lparr>step := StateInValue\<rparr>) c)"

definition stateNewDictionaryPair :: "scanner \<Rightarrow> char \<Rightarrow> (opcode \<times> scanner) result" where
  "stateNewDictionaryPair s c =
     (if isSpace c then Ok (scanSkipSpace, s)
      else if c = CHR ''}'' then andThen (popParseState s) (\<lambda>s1. Ok (scanEndBlock, s1))
      else stateInKey (s\<lparr>step := StateInKey\<rparr>) c)"

definition stateNewArrayValue :: "scanner \<Rightarrow> char \<Rightarrow> (opcode \<times> scanner) result" where
  "stateNewArrayValue s c =
     (if isSpace c then Ok (scanSkipSpace, s)
      else if c = CHR '']'' then andThen (popParseState s) (\<lambda>s1. Ok (scanEndBlock, s1))
      else stateInValue (s\<lparr>step := StateInValue\<rparr>) c)"

definition stateNewTextLine :: "scanner \<Rightarrow> char \<Rightarrow> (opcode \<times> scanner) result" where
  "stateNewTextLine s c =
     (if c = CHR ''}'' then andThen (popParseState s) (\<lambda>s1. Ok (scanEndBlock, s1))
      else Ok (scanTextLine, s\<lparr>step := StateInText\<rparr>))"

text \<open>
  In \<open>stateOpenBlock\<close> the top of the stack is read before the byte is looked at. The
  fall-through of its switch (\<open>"no state for block"\<close>) is the case of a stack whose top is
  \<open>parseDictionaryValue\<close>.
\<close>

definition stateOpenBlock :: "scanner \<Rightarrow> char \<Rightarrow> (opcode \<times> scanner) result" where
  "stateOpenBlock s c =
     (if parseState s = [] then Panic
      else (case last (parseState s) of
              parseDictionaryKey \<Rightarrow>
                if isSpace c then Ok (scanSkipSpace, s) else stateNewDictionaryPair s c
            | parseArrayValue \<Rightarrow>
                if isSpace c then Ok (scanSkipSpace, s) else stateNewArrayValue s c
            | parseTextValue \<Rightarrow> Ok (scanSkipSpace, s\<lparr>step := StateNewTextLine\<rparr>)
            | parseDictionaryValue \<Rightarrow> Ok (error s c ''no state for block'')))"

definition stateError :: "scanner \<Rightarrow> char \<Rightarrow> (opcode \<times> scanner) result" where
  "stateError s c = Ok (scanError, s)"

text \<open>\<open>call_step s c\<close> is the call \<open>s.step(s, c)\<close>.\<close>

definition call_step :: "scanner \<Rightarrow> char \<Rightarrow> (opcode \<times> scanner) result" where
  "call_step s c =
     (case step s of
        StateNil \<Rightarrow> Panic
      | StateBeginBlockLine \<Rightarrow> stateBeginBlockLine s c
      | StateReadingTag \<Rightarrow> stateReadingTag s c
      | StateWaitingForOpenBlock \<Rightarrow> stateWaitingForOpenBlock s c
      | StateOpenBlock \<Rightarrow> stateOpenBlock s c
      | StateEndValue \<Rightarrow> stateEndValue s c
      | StateNewDictionaryPair \<Rightarrow> stateNewDictionaryPair s c
      | StateNewArrayValue \<Rightarrow> stateNewArrayValue s c
      | StateNewTextLine \<Rightarrow> stateNewTextLine s c
      | StateInText \<Rightarrow> stateInText s c
      | StateInKey \<Rightarrow> stateInKey s c
      | StateBeginDictionaryValue \<Rightarrow> stateBeginDictionaryValue s c
      | StateInValue \<Rightarrow> stateInValue s c
      | StateInStringEsc \<Rightarrow> stateInStringEsc s c
      | StateInStringEscU \<Rightarrow> stateInStringEscU s c
      | StateInStringEscU1 \<Rightarrow> stateInStringEscU1 s c
      | StateInStringEscU12 \<Rightarrow> stateInStringEscU12 s c
      | StateInStringEscU123 \<Rightarrow> stateInStringEscU123 s c
      | StateError \<Rightarrow> stateError s c)"

text \<open>\<open>eof\<close> ignores the opcode of the step it makes with the synthetic space.\<close>

definition eof :: "scanner \<Rightarrow> (opcode \<times> scanner) result" where
  "eof s =
     (if err s \<noteq> None then Ok (scanError, s)
      else if endBlock s then Ok (scanEnd, s)
      else andThen (call_step s (CHR '' '')) (\<lambda>(op, s1).
        if endBlock s1 then Ok (scanEnd, s1)
        else if err s1 = None then
          Ok (scanError, s1\<lparr>err := Some \<lparr>msg = Message ''unexpected end of Bru input'',
                                           Offset = bytes s1\<rparr>\<rparr>)
        else Ok (scanError, s1)))"

text \<open>
  \<open>checkValid\<close> returns the error (\<open>None\<close> is Go's nil) and leaves the scanner it was
  given in its last state.
\<close>

fun checkValid_loop :: "string \<Rightarrow> scanner \<Rightarrow> (SyntaxError option \<times> scanner) result" where
  "checkValid_loop [] scan =
     andThen (eof scan) (\<lambda>(op, scan1).
       if op = scanError then Ok (err scan1, scan1) else Ok (None, scan1))"
| "checkValid_loop (c # cs) scan =
     andThen (call_step (scan\<lparr>bytes := bytes scan + 1\<rparr>) c) (\<lambda>(op, scan1).
       if op = scanError then Ok (err scan1, scan1) else checkValid_loop cs scan1)"

definition checkValid :: "string \<Rightarrow> scanner \<Rightarrow> (SyntaxError option \<times> scanner) result" where
  "checkValid dat scan = checkValid_loop dat (reset scan)"

text \<open>The zero value of \<open>scanner\<close>, as in \<open>var d decodeState\<close> and \<open>&scanner{}\<close>.\<close>

definition zeroScanner :: scanner where
  "zeroScanner = \<lparr>step = StateNil, endBlock = False, parseState = [], err = None,
                  bytes = 0, tagName = []\<rparr>"

section \<open>The blocks (structs.go)\<close>

record DictionaryElement =
  Key :: string
  Value :: string

text \<open>
  A value of the interface \<open>ContentBlock\<close>: a pointer to one of the three structs (with
  \<open>Name\<close>, \<open>Type\<close> and \<open>Content\<close>), a value of some other type that implements the
  interface (\<open>OtherBlock name type\<close>, whose \<open>GetName\<close> and \<open>GetType\<close> return the two
  strings), or nil (\<open>NilBlock\<close>), on which every method call panics.
\<close>

datatype ContentBlock =
    DictionaryBlock string string "DictionaryElement list"
  | TextBlock string string string
  | ArrayBlock string string "string list"
  | OtherBlock string string
  | NilBlock

text \<open>The argument of \<open>SetContent\<close>, of type \<open>any\<close>, with the dynamic types the decoder passes.\<close>

datatype content =
    DictionaryContent "DictionaryElement list"
  | StringContent string
  | ArrayContent "string list"

datatype goerror = SyntaxErr SyntaxError | ErrorString string



text \<open>
  \<open>SetContent\<close> updates the block in place and returns an error; the model returns the
  updated block with it. The decoder calls it only on the three structs.
\<close>

fun SetContent :: "ContentBlock \<Rightarrow> content \<Rightarrow> (ContentBlock \<times> goerror option) result" where
  "SetContent (DictionaryBlock n t old) (DictionaryContent c) = Ok (DictionaryBlock n t c, None)"
| "SetContent (DictionaryBlock n t old) other =
     Ok (DictionaryBlock n t old, Some (ErrorString ''wrong type to set for dictionary''))"
| "SetContent (TextBlock n t old) (StringContent c) = Ok (TextBlock n t c, None)"
| "SetContent (TextBlock n t old) other =
     Ok (TextBlock n t old, Some (ErrorString ''wrong type to set for dictionary''))"
| "SetContent (ArrayBlock n t old) (ArrayContent c) = Ok (ArrayBlock n t c, None)"
| "SetContent (ArrayBlock n t old) other =
     Ok (ArrayBlock n t old, Some (ErrorString ''wrong type to set for dictionary''))"
| "SetContent (OtherBlock n t) other = Ok (OtherBlock n t, None)"
| "SetContent NilBlock other = Panic"

section \<open>The decoder (decode.go)\<close>

record decodeState =
  data :: string
  off :: int
  opcode :: opcode
  scan :: scanner

definition readIndex :: "decodeState \<Rightarrow> int" where
  "readIndex d = off d - 1"

definition init :: "decodeState \<Rightarrow> string \<Rightarrow> decodeState" where
  "init d dat = d\<lparr>data := dat, off := 0\<rparr>"

text \<open>The slice expression \<open>s[lo:hi]\<close>, which panics unless \<open>0 \<le> lo \<le> hi \<le> len(s)\<close>.\<close>

definition slice :: "string \<Rightarrow> int \<Rightarrow> int \<Rightarrow> string result" where
  "slice s lo hi =
     (if 0 \<le> lo \<and> lo \<le> hi \<and> hi \<le> int (length s)
      then Ok (take (nat (hi - lo)) (drop (nat lo) s)) else Panic)"

definition scanNext :: "decodeState \<Rightarrow> decodeState result" where
  "scanNext d =
     (if off d < int (length (data d)) then
        (if off d < 0 then Panic
         else andThen (call_step (scan d) (data d ! nat (off d))) (\<lambda>(op, s).
                Ok (d\<lparr>opcode := op, scan := s, off := off d + 1\<rparr>)))
      else andThen (eof (scan d)) (\<lambda>(op, s).
             Ok (d\<lparr>opcode := op, scan := s, off := int (length (data d)) + 1\<rparr>)))"

text \<open>
  The loop of \<open>scanWhile\<close>, on the scanner \<open>s\<close> and the index \<open>i\<close>; it returns the
  opcode, the scanner and the offset that \<open>scanWhile\<close> stores.
\<close>

function scanWhile_from :: "opcode \<Rightarrow> string \<Rightarrow> scanner \<Rightarrow> int \<Rightarrow> (opcode \<times> scanner \<times> int) result" where
  "scanWhile_from op dat s i =
     (if i < int (length dat) then
        (if i < 0 then Panic
         else (case call_step s (dat ! nat i) of
                 Ok (newOp, s1) \<Rightarrow>
                   if newOp \<noteq> op then Ok (newOp, s1, i + 1)
                   else scanWhile_from op dat s1 (i + 1)
               | Panic \<Rightarrow> Panic
               | OutOfFuel \<Rightarrow> OutOfFuel))
      else andThen (eof s) (\<lambda>(eofOp, s1). Ok (eofOp, s1, int (length dat) + 1)))"
  by pat_completeness auto
termination
  by (relation "measure (\<lambda>(op, dat, s, i). nat (int (length dat) - i))") auto

declare scanWhile_from.simps [simp del]

definition scanWhile :: "opcode \<Rightarrow> decodeState \<Rightarrow> decodeState result" where
  "scanWhile op d =
     andThen (scanWhile_from op (data d) (scan d) (off d)) (\<lambda>(newOp, s, i).
       Ok (d\<lparr>opcode := newOp, scan := s, off := i\<rparr>))"

text \<open>\<open>strings.Cut(tag, ":")\<close>: the text before the first colon and the text after it.\<close>

definition cutColon :: "string \<Rightarrow> string \<times> string" where
  "cutColon t = (takeWhile (\<lambda>c. c \<noteq> CHR '':'') t, drop 1 (dropWhile (\<lambda>c. c \<noteq> CHR '':'') t))"

fun getBlockForTag_from :: "string \<Rightarrow> nat \<Rightarrow> string list \<Rightarrow> (ContentBlock \<times> goerror option) result" where
  "getBlockForTag_from tag i [] =
     Ok (NilBlock, Some (ErrorString (''could not find block for tag '' @ [squote] @ tag @ [squote])))"
| "getBlockForTag_from tag i (t # rest) =
     (if tag = t then
        (case cutColon tag of (name, tagData) \<Rightarrow>
           if i < length blockTypes then
             (case blockTypes ! i of
                dictionaryBlock \<Rightarrow> Ok (DictionaryBlock name tagData [], None)
              | textBlock \<Rightarrow> Ok (TextBlock name tagData [], None)
              | arrayBlock \<Rightarrow> Ok (ArrayBlock name tagData [], None))
           else Panic)
      else getBlockForTag_from tag (Suc i) rest)"

definition getBlockForTag :: "string \<Rightarrow> (ContentBlock \<times> goerror option) result" where
  "getBlockForTag tag = getBlockForTag_from tag 0 tags"

text \<open>
  The loops \<open>for { if <stop> { break }; d.scanNext() }\<close> of \<open>block\<close>, which have no bound:
  one unit of fuel for each test of the condition.
\<close>

fun scanUntil :: "(opcode \<Rightarrow> bool) \<Rightarrow> nat \<Rightarrow> decodeState \<Rightarrow> decodeState result" where
  "scanUntil stop 0 d = OutOfFuel"
| "scanUntil stop (Suc n) d =
     (if stop (opcode d) then Ok d else andThen (scanNext d) (scanUntil stop n))"

text \<open>The loop of the dictionary case of \<open>block\<close>.\<close>

fun dictionaryLoop :: "nat \<Rightarrow> decodeState \<Rightarrow> DictionaryElement list \<Rightarrow> (decodeState \<times> DictionaryElement list) result" where
  "dictionaryLoop 0 d dic = OutOfFuel"
| "dictionaryLoop (Suc n) d dic =
     (if opcode d = scanEndBlock then Ok (d, dic)
      else
        andThen (scanWhile scanSkipSpace d) (\<lambda>d1.
        andThen (scanWhile scanContinue d1) (\<lambda>d2.
        andThen (slice (data d2) (readIndex d1) (readIndex d2)) (\<lambda>key.
        andThen (scanWhile scanSkipSpace d2) (\<lambda>d3.
        andThen (if opcode d3 \<noteq> scanDictionaryKey then
                   andThen (scanWhile scanContinue d3) (\<lambda>d4.
                   andThen (slice (data d4) (readIndex d3) (readIndex d4)) (\<lambda>v. Ok (d4, v)))
                 else Ok (d3, [])) (\<lambda>(d5, v).
        andThen (scanNext d5) (\<lambda>d6.
        dictionaryLoop n d6 (dic @ [\<lparr>Key = key, Value = v\<rparr>]))))))))"

text \<open>The loop of the array case.\<close>

fun arrayLoop :: "nat \<Rightarrow> decodeState \<Rightarrow> string list \<Rightarrow> (decodeState \<times> string list) result" where
  "arrayLoop 0 d dic = OutOfFuel"
| "arrayLoop (Suc n) d dic =
     (if opcode d = scanEndArray then Ok (d, dic)
      else
        andThen (scanWhile scanSkipSpace d) (\<lambda>d1.
        andThen (scanWhile scanContinue d1) (\<lambda>d2.
        andThen (slice (data d2) (readIndex d1) (readIndex d2)) (\<lambda>v.
        andThen (scanNext d2) (\<lambda>d3.
        arrayLoop n d3 (dic @ [v]))))))"

text \<open>The second loop of the text case.\<close>

fun textLoop :: "nat \<Rightarrow> decodeState \<Rightarrow> string \<Rightarrow> (decodeState \<times> string) result" where
  "textLoop 0 d dic = OutOfFuel"
| "textLoop (Suc n) d dic =
     (if opcode d = scanEndBlock then Ok (d, dic)
      else
        andThen (scanWhile scanContinue d) (\<lambda>d1.
        andThen (slice (data d1) (readIndex d) (readIndex d1)) (\<lambda>v.
        andThen (scanNext d1) (\<lambda>d2.
        textLoop n d2 (dic @ v @ [nl])))))"

text \<open>
  \<open>block\<close> returns the decoder state it leaves, the block and the error. Each of its
  loops gets the fuel \<open>n\<close>.
\<close>

definition block :: "nat \<Rightarrow> decodeState \<Rightarrow> (decodeState \<times> ContentBlock \<times> goerror option) result" where
  "block n d =
     andThen (scanUntil (\<lambda>op. op = scanBeginTag) n d) (\<lambda>d1.
     andThen (scanUntil (\<lambda>op. op = scanEndTag) n d1) (\<lambda>d2.
     andThen (slice (data d2) (readIndex d1) (readIndex d2)) (\<lambda>blockName.
     andThen (getBlockForTag blockName) (\<lambda>(blk, e).
       if e \<noteq> None then Ok (d2, NilBlock, e)
       else
         andThen (scanWhile scanSkipSpace d2) (\<lambda>d3.
           case opcode d3 of
             scanBeginDictionary \<Rightarrow>
               andThen (dictionaryLoop n d3 []) (\<lambda>(d4, dic).
               andThen (SetContent blk (DictionaryContent dic)) (\<lambda>(blk1, e1). Ok (d4, blk1, e1)))
           | scanBeginArray \<Rightarrow>
               andThen (arrayLoop n d3 []) (\<lambda>(d4, dic).
               andThen (SetContent blk (ArrayContent dic)) (\<lambda>(blk1, e1). Ok (d4, blk1, e1)))
           | scanBeginText \<Rightarrow>
               andThen (scanUntil (\<lambda>op. op = scanEndBlock \<or> op = scanTextLine) n d3) (\<lambda>d4.
               andThen (textLoop n d4 []) (\<lambda>(d5, dic).
               andThen (slice dic 0 (int (length dic) - 1)) (\<lambda>txt.
               andThen (SetContent blk (StringContent txt)) (\<lambda>(blk1, e1). Ok (d5, blk1, e1)))))
           | _ \<Rightarrow> Ok (d3, NilBlock, None))))))"

text \<open>
  The loop of \<open>value\<close>. \<open>Inl e\<close> is the return \<open>nil, e\<close> and \<open>Inr blocks\<close> the return
  \<open>blocks, nil\<close>.
\<close>

fun value_loop :: "nat \<Rightarrow> decodeState \<Rightarrow> ContentBlock list \<Rightarrow> (goerror + ContentBlock list) result" where
  "value_loop 0 d blocks = OutOfFuel"
| "value_loop (Suc n) d blocks =
     andThen (scanWhile scanSkipSpace d) (\<lambda>d1.
       if opcode d1 = scanEnd then Ok (Inr blocks)
       else
         andThen (block (Suc n) d1) (\<lambda>(d2, blk, e).
           case e of
             Some er \<Rightarrow> Ok (Inl er)
           | None \<Rightarrow> andThen (scanNext d2) (\<lambda>d3. value_loop n d3 (blocks @ [blk]))))"

definition unmarshal :: "nat \<Rightarrow> decodeState \<Rightarrow> (goerror + ContentBlock list) result" where
  "unmarshal n d =
     andThen (value_loop n (d\<lparr>scan := reset (scan d)\<rparr>) []) (\<lambda>r.
       case r of Inl e \<Rightarrow> Ok (Inl e) | Inr blocks \<Rightarrow> Ok (Inr blocks))"

text \<open>
  \<open>Read n dat\<close> is the call \<open>Read(dat)\<close>, with fuel \<open>n\<close> for each unbounded loop of the
  decoder. The second pass uses the scanner that \<open>checkValid\<close> has left.
\<close>

definition Read :: "nat \<Rightarrow> string \<Rightarrow> (goerror + ContentBlock list) result" where
  "Read n dat =
     andThen (checkValid dat zeroScanner) (\<lambda>(e, sc).
       case e of
         Some se \<Rightarrow> Ok (Inl (SyntaxErr se))
       | None \<Rightarrow>
           unmarshal n (init \<lparr>data = [], off = 0, opcode = scanContinue, scan = sc\<rparr> dat))"

section \<open>The encoder (encode.go)\<close>













section \<open>Predicates of the statements and of the proofs\<close>

text \<open>
  More fuel does not change an answer other than \<open>OutOfFuel\<close>: \<open>fuel_le r r'\<close> says that
  \<open>r'\<close> is \<open>r\<close> unless \<open>r\<close> ran out of fuel.
\<close>

definition fuel_le :: "'a result \<Rightarrow> 'a result \<Rightarrow> bool" where
  "fuel_le r r' = (r = OutOfFuel \<or> r = r')"

text \<open>
  At the end of the input, with the last block closed and no error, every scan answers
  \<open>scanEnd\<close> and changes nothing: a loop of the decoder that waits there for another opcode
  never ends.
\<close>

definition atEnd :: "decodeState \<Rightarrow> bool" where
  "atEnd d = (off d = int (length (data d)) + 1 \<and> opcode d = scanEnd
              \<and> endBlock (scan d) \<and> err (scan d) = None)"

text \<open>The error is the one of \<open>pushParseState\<close>: its context is "exceeded max depth".\<close>

definition maxDepthError :: "SyntaxError option \<Rightarrow> bool" where
  "maxDepthError e =
     (case e of None \<Rightarrow> False
      | Some x \<Rightarrow> (case msg x of InvalidCharacter c ctx \<Rightarrow> ctx = ''exceeded max depth''
                                | Message m \<Rightarrow> False))"

text \<open>
  What holds of every scanner reached from \<open>reset\<close>: the stack is empty while a tag is
  awaited or read, holds one entry inside a block, and \<open>endBlock\<close> is set only between
  blocks.
\<close>

definition scannerInv :: "scanner \<Rightarrow> bool" where
  "scannerInv s =
     (\<not> maxDepthError (err s) \<and>
      (case step s of
         StateNil \<Rightarrow> False
       | StateBeginBlockLine \<Rightarrow> parseState s = []
       | StateReadingTag \<Rightarrow> parseState s = [] \<and> \<not> endBlock s
       | StateError \<Rightarrow> length (parseState s) \<le> 1 \<and> err s \<noteq> None
       | _ \<Rightarrow> length (parseState s) = 1 \<and> \<not> endBlock s))"

text \<open>What a step from such a scanner returns.\<close>

definition stepPost :: "opcode \<Rightarrow> scanner \<Rightarrow> bool" where
  "stepPost op s = (scannerInv s \<and> (op = scanEndTag \<longrightarrow> step s = StateWaitingForOpenBlock)
                    \<and> (op = scanError \<longrightarrow> step s = StateError))"

definition stepOk :: "(opcode \<times> scanner) result \<Rightarrow> bool" where
  "stepOk r = (case r of Ok (op, s) \<Rightarrow> stepPost op s | _ \<Rightarrow> False)"






section \<open>Evaluation and fuel\<close>

text \<open>
  The second argument of \<open>andThen\<close> is looked at only once the first has been evaluated.
\<close>

lemma andThen_cong [cong]: "m = m' \<Longrightarrow> andThen m f = andThen m' f"
  by simp

text \<open>The scanner has no unbounded loop: none of its functions runs out of fuel.\<close>

lemma checkTag_from_fuel: "checkTag_from s c name i ts \<noteq> OutOfFuel"
  by (induction ts arbitrary: i) (auto simp: Let_def split: blockType.splits)

lemma andThen_pop_fuel: "andThen (popParseState s) (\<lambda>s1. Ok (f s1)) \<noteq> OutOfFuel"
  by (simp add: popParseState_def)

lemma stateEndValue_fuel: "stateEndValue s c \<noteq> OutOfFuel"
  by (simp add: stateEndValue_def andThen_pop_fuel split: pstate.splits)

lemma stateInValue_fuel: "stateInValue s c \<noteq> OutOfFuel"
  by (simp add: stateInValue_def stateEndValue_fuel)

lemma stateInKey_fuel: "stateInKey s c \<noteq> OutOfFuel"
  by (simp add: stateInKey_def stateEndValue_fuel)

lemma stateNewDictionaryPair_fuel: "stateNewDictionaryPair s c \<noteq> OutOfFuel"
  by (simp add: stateNewDictionaryPair_def andThen_pop_fuel stateInKey_fuel)

lemma stateNewArrayValue_fuel: "stateNewArrayValue s c \<noteq> OutOfFuel"
  by (simp add: stateNewArrayValue_def andThen_pop_fuel stateInValue_fuel)

lemma stateOpenBlock_fuel: "stateOpenBlock s c \<noteq> OutOfFuel"
  by (simp add: stateOpenBlock_def stateNewDictionaryPair_fuel stateNewArrayValue_fuel
      split: pstate.splits)

lemma stateWaitingForOpenBlock_fuel: "stateWaitingForOpenBlock s c \<noteq> OutOfFuel"
  by (simp add: stateWaitingForOpenBlock_def split: pstate.splits)

lemma call_step_fuel: "call_step s c \<noteq> OutOfFuel"
  by (cases "step s")
     (simp_all add: call_step_def stateBeginBlockLine_def stateReadingTag_def checkTag_def
        checkTag_from_fuel stateWaitingForOpenBlock_fuel stateOpenBlock_fuel stateEndValue_fuel
        stateNewDictionaryPair_fuel stateNewArrayValue_fuel stateNewTextLine_def andThen_pop_fuel
        stateInText_def stateInKey_fuel stateBeginDictionaryValue_def stateInValue_fuel
        stateInStringEsc_def stateInStringEscU_def stateInStringEscU1_def stateInStringEscU12_def
        stateInStringEscU123_def stateError_def)

lemma eof_cases:
  "case eof s of Ok (op, s') \<Rightarrow> op = scanEnd \<or> (op = scanError \<and> err s' \<noteq> None)
   | Panic \<Rightarrow> True | OutOfFuel \<Rightarrow> False"
  using call_step_fuel[of s "CHR '' ''"]
  by (cases "call_step s (CHR '' '')") (simp_all add: eof_def split: prod.splits)

lemma checkValid_exhausted:
  "(checkValid_loop [] s = Ok (None, s')) = (eof s = Ok (scanEnd, s'))"
  using eof_cases[of s]
  by (cases "eof s") (auto split: if_splits)

lemma fuel_le_refl [simp]: "fuel_le r r"
  by (simp add: fuel_le_def)

lemma fuel_le_OutOfFuel [simp]: "fuel_le OutOfFuel r"
  by (simp add: fuel_le_def)

lemma fuel_le_andThen:
  assumes "fuel_le m m'" and "\<And>x. fuel_le (f x) (g x)"
  shows "fuel_le (andThen m f) (andThen m' g)"
proof (cases m)
  case (Ok x)
  with assms(1) have "m' = Ok x" by (simp add: fuel_le_def)
  with Ok assms(2) show ?thesis by simp
next
  case Panic
  with assms(1) have "m' = Panic" by (simp add: fuel_le_def)
  with Panic show ?thesis by simp
next
  case OutOfFuel
  then show ?thesis by simp
qed

lemma scanUntil_mono: "fuel_le (scanUntil stop n d) (scanUntil stop (n + k) d)"
proof (induction n arbitrary: d)
  case 0
  show ?case by simp
next
  case (Suc n)
  show ?case using Suc.IH by (auto intro!: fuel_le_andThen)
qed

lemma dictionaryLoop_mono: "fuel_le (dictionaryLoop n d dic) (dictionaryLoop (n + k) d dic)"
proof (induction n arbitrary: d dic)
  case 0
  show ?case by simp
next
  case (Suc n)
  show ?case using Suc.IH
    by (auto intro!: fuel_le_andThen simp del: andThen.simps split: prod.splits)
qed

lemma arrayLoop_mono: "fuel_le (arrayLoop n d dic) (arrayLoop (n + k) d dic)"
proof (induction n arbitrary: d dic)
  case 0
  show ?case by simp
next
  case (Suc n)
  show ?case using Suc.IH by (auto intro!: fuel_le_andThen)
qed

lemma textLoop_mono: "fuel_le (textLoop n d dic) (textLoop (n + k) d dic)"
proof (induction n arbitrary: d dic)
  case 0
  show ?case by simp
next
  case (Suc n)
  show ?case using Suc.IH by (auto intro!: fuel_le_andThen)
qed

lemma block_mono: "fuel_le (block n d) (block (n + k) d)"
  unfolding block_def
  by (intro fuel_le_andThen scanUntil_mono fuel_le_refl)
     (auto intro!: fuel_le_andThen scanUntil_mono dictionaryLoop_mono arrayLoop_mono textLoop_mono
           split: opcode.splits prod.splits)

lemma value_loop_mono: "fuel_le (value_loop n d bs) (value_loop (n + k) d bs)"
proof (induction n arbitrary: d bs)
  case 0
  show ?case by simp
next
  case (Suc n)
  have b: "\<And>d1. fuel_le (block (Suc n) d1) (block (Suc (n + k)) d1)"
    using block_mono[of "Suc n" _ k] by simp
  show ?case using Suc.IH
    by (auto intro!: fuel_le_andThen b split: prod.splits option.splits)
qed

lemma Read_mono: "fuel_le (Read n dat) (Read (n + k) dat)"
  unfolding Read_def unmarshal_def
  by (auto intro!: fuel_le_andThen value_loop_mono split: prod.splits option.splits)

lemma Read_more_fuel: "Read n dat = r \<Longrightarrow> r \<noteq> OutOfFuel \<Longrightarrow> Read (n + k) dat = r"
  using Read_mono[of n dat k] by (simp add: fuel_le_def)

text \<open>\<open>Read\<close> returns the error of \<open>checkValid\<close>, whatever the fuel.\<close>

lemma Read_invalid:
  "map_result fst (checkValid dat zeroScanner) = Ok (Some e) \<Longrightarrow>
   Read n dat = Ok (Inl (SyntaxErr e))"
  by (cases "checkValid dat zeroScanner") (auto simp: Read_def)

text \<open>The definitions that evaluating the scanner and the decoder unfolds.\<close>

lemmas scanner_defs = call_step_def eof_def reset_def error_def pushParseState_def popParseState_def
  isSpace_def checkTag_def stateReadingTag_def stateWaitingForOpenBlock_def stateBeginBlockLine_def
  stateEndValue_def stateInStringEsc_def isHex_def stateInStringEscU_def stateInStringEscU1_def
  stateInStringEscU12_def stateInStringEscU123_def stateInText_def stateInKey_def stateInValue_def
  stateBeginDictionaryValue_def stateNewDictionaryPair_def stateNewArrayValue_def stateNewTextLine_def
  stateOpenBlock_def stateError_def tags_def blockTypes_def maxNestingDepth_def zeroScanner_def
  checkValid_def

lemmas decoder_defs = readIndex_def init_def slice_def scanNext_def scanWhile_def
  scanWhile_from.simps cutColon_def getBlockForTag_def block_def unmarshal_def Read_def

lemma scanWhile_atEnd: "atEnd d \<Longrightarrow> scanWhile op d = Ok d"
  by (simp add: atEnd_def scanWhile_def scanWhile_from.simps eof_def)

lemma scanNext_atEnd: "atEnd d \<Longrightarrow> scanNext d = Ok d"
  by (simp add: atEnd_def scanNext_def eof_def)

lemma slice_atEnd: "atEnd d \<Longrightarrow> slice (data d) (readIndex d) (readIndex d) = Ok []"
  by (simp add: atEnd_def slice_def readIndex_def)

lemma dictionaryLoop_atEnd: "atEnd d \<Longrightarrow> dictionaryLoop m d dic = OutOfFuel"
proof (induction m arbitrary: dic)
  case 0
  show ?case by simp
next
  case (Suc m)
  have "opcode d \<noteq> scanEndBlock" using Suc.prems by (simp add: atEnd_def)
  then show ?case using Suc
    by (simp add: scanWhile_atEnd scanNext_atEnd slice_atEnd)
qed

lemma arrayLoop_atEnd: "atEnd d \<Longrightarrow> arrayLoop m d dic = OutOfFuel"
proof (induction m arbitrary: dic)
  case 0
  show ?case by simp
next
  case (Suc m)
  have "opcode d \<noteq> scanEndArray" using Suc.prems by (simp add: atEnd_def)
  then show ?case using Suc
    by (simp add: scanWhile_atEnd scanNext_atEnd slice_atEnd)
qed

lemma Read_empty_dictionary_fuel:
  "Read (Suc (Suc (Suc (Suc (Suc (Suc (Suc (Suc n)))))))) (''meta {'' @ [nl] @ ''}'') = OutOfFuel"
  by (simp add: scanner_defs decoder_defs dictionaryLoop_atEnd atEnd_def)

section \<open>The scanner from \<open>reset\<close>\<close>

lemma stepOk_Ok [simp]: "stepOk (Ok (op, s)) = stepPost op s"
  by (simp add: stepOk_def)


























lemma scannerInv_bytes [simp]: "scannerInv (s\<lparr>bytes := n\<rparr>) = scannerInv s"
  by (cases "step s") (simp_all add: scannerInv_def)






section \<open>The decoder all along\<close>





























section \<open>The encoder never returns an error\<close>









section \<open>The claims\<close>




text \<open>
  C3 (the code at the failing input): the buffer \<^verbatim>\<open>meta {\n}\<close>, an empty dictionary block,
  passes \<open>checkValid\<close>, and \<open>Read\<close> does not return on it, whatever the fuel: the
  dictionary loop of \<open>block\<close> reads the closing brace while it skips space, reaches the end
  of the input, and goes on appending empty pairs.
\<close>

theorem C3_valid_buffer_never_decoded:
  "map_result fst (checkValid (''meta {'' @ [nl] @ ''}'') zeroScanner) = Ok None
   \<and> Read n (''meta {'' @ [nl] @ ''}'') = OutOfFuel"
proof
  show "map_result fst (checkValid (''meta {'' @ [nl] @ ''}'') zeroScanner) = Ok None"
    by code_simp
  show "Read n (''meta {'' @ [nl] @ ''}'') = OutOfFuel"
  proof (rule ccontr)
    assume a: "Read n (''meta {'' @ [nl] @ ''}'') \<noteq> OutOfFuel"
    have "Read (n + 8) (''meta {'' @ [nl] @ ''}'') = Read n (''meta {'' @ [nl] @ ''}'')"
      using a by (rule Read_more_fuel[OF refl])
    moreover have "n + 8 = Suc (Suc (Suc (Suc (Suc (Suc (Suc (Suc n)))))))" by simp
    ultimately show False using a Read_empty_dictionary_fuel[of n] by simp
  qed
qed

text \<open>
  C4 (the code at the failing input): the buffer
  \<^verbatim>\<open>vars:secret [\n  access_key,\n  access_secret,\n  ~transactionId\n]\<close> does not pass
  \<open>checkValid\<close>, so \<open>Read\<close> returns a syntax error and no block: the comma stays inside the
  first value, and after the newline that ends it the scanner accepts only space, a comma or
  the closing bracket, not the first byte of \<open>access_secret\<close> (the 31st byte).
\<close>

theorem C4_multi_line_array_rejected:
  "Read n (''vars:secret ['' @ [nl] @ ''  access_key,'' @ [nl] @ ''  access_secret,'' @ [nl]
           @ ''  ~transactionId'' @ [nl] @ '']'') =
     Ok (Inl (SyntaxErr \<lparr>msg = InvalidCharacter CHR ''a'' ''after array element'', Offset = 31\<rparr>))"
proof -
  have "map_result fst (checkValid (''vars:secret ['' @ [nl] @ ''  access_key,'' @ [nl]
          @ ''  access_secret,'' @ [nl] @ ''  ~transactionId'' @ [nl] @ '']'') zeroScanner)
        = Ok (Some \<lparr>msg = InvalidCharacter CHR ''a'' ''after array element'', Offset = 31\<rparr>)"
    by code_simp
  then show ?thesis by (rule Read_invalid)
qed



text \<open>
  C7: the input \<^verbatim>\<open>meta {\n  url: https://toto.com\n\<close>, which lacks its closing brace, is
  refused by \<open>Read\<close> with the message "unexpected end of Bru input" at offset 31, the length
  of the input. When the input is exhausted, validation succeeds exactly when \<open>eof\<close> answers
  \<open>scanEnd\<close>; and \<open>eof\<close>, on a scanner with no error whose \<open>endBlock\<close> is not set, feeds
  the scanner a space and answers \<open>scanEnd\<close> if \<open>endBlock\<close> is set afterwards, else records
  the error (unless the step has recorded one) and answers \<open>scanError\<close>.
\<close>

theorem C7_unexpected_end_of_input:
  "Read n (''meta {'' @ [nl] @ ''  url: https://toto.com'' @ [nl]) =
     Ok (Inl (SyntaxErr \<lparr>msg = Message ''unexpected end of Bru input'', Offset = 31\<rparr>))
   \<and> length (''meta {'' @ [nl] @ ''  url: https://toto.com'' @ [nl]) = 31
   \<and> (checkValid_loop [] s = Ok (None, s')) = (eof s = Ok (scanEnd, s'))
   \<and> eof (s\<lparr>err := None, endBlock := False\<rparr>) =
       andThen (call_step (s\<lparr>err := None, endBlock := False\<rparr>) (CHR '' '')) (\<lambda>(op, s1).
         if endBlock s1 then Ok (scanEnd, s1)
         else if err s1 = None then
           Ok (scanError, s1\<lparr>err := Some \<lparr>msg = Message ''unexpected end of Bru input'',
                                            Offset = bytes s1\<rparr>\<rparr>)
         else Ok (scanError, s1))"
proof -
  have "map_result fst (checkValid (''meta {'' @ [nl] @ ''  url: https://toto.com'' @ [nl])
          zeroScanner)
        = Ok (Some \<lparr>msg = Message ''unexpected end of Bru input'', Offset = 31\<rparr>)"
    by code_simp
  then have "Read n (''meta {'' @ [nl] @ ''  url: https://toto.com'' @ [nl]) =
     Ok (Inl (SyntaxErr \<lparr>msg = Message ''unexpected end of Bru input'', Offset = 31\<rparr>))"
    by (rule Read_invalid)
  moreover have "length (''meta {'' @ [nl] @ ''  url: https://toto.com'' @ [nl]) = 31"
    by simp
  moreover note checkValid_exhausted [of s s']
  moreover have "eof (s\<lparr>err := None, endBlock := False\<rparr>) =
       andThen (call_step (s\<lparr>err := None, endBlock := False\<rparr>) (CHR '' '')) (\<lambda>(op, s1).
         if endBlock s1 then Ok (scanEnd, s1)
         else if err s1 = None then
           Ok (scanError, s1\<lparr>err := Some \<lparr>msg = Message ''unexpected end of Bru input'',
                                            Offset = bytes s1\<rparr>\<rparr>)
         else Ok (scanError, s1))"
    by (simp add: eof_def)
  ultimately show ?thesis by blast
qed



text \<open>
  C9: the buffer \<^verbatim>\<open>tests {\n}\<close>, a text block with an empty body, passes \<open>checkValid\<close>,
  and \<open>Read\<close> panics on it: the text loop ends with the empty string and the slice
  \<open>dic[:len(dic)-1]\<close> of the empty string is out of range.
\<close>

theorem C9_empty_text_block_panics:
  "map_result fst (checkValid (''tests {'' @ [nl] @ ''}'') zeroScanner) = Ok None
   \<and> Read (10 + n) (''tests {'' @ [nl] @ ''}'') = Panic
   \<and> slice [] 0 (int (length ([] :: string)) - 1) = Panic"
proof -
  have "map_result fst (checkValid (''tests {'' @ [nl] @ ''}'') zeroScanner) = Ok None"
    by code_simp
  moreover have "Read 10 (''tests {'' @ [nl] @ ''}'') = Panic"
    by code_simp
  then have "Read (10 + n) (''tests {'' @ [nl] @ ''}'') = Panic"
    by (rule Read_more_fuel) simp
  moreover have "slice [] 0 (int (length ([] :: string)) - 1) = Panic"
    by (simp add: slice_def)
  ultimately show ?thesis by blast
qed




end
